theory Spec2Isabelle
  imports Complex_Main
begin

section \<open>Data model\<close>

text \<open>
  An entry of \<^verbatim>\<open>room.users\<close>: \<^verbatim>\<open>{ id: socket.id, name: userName }\<close>.
\<close>

record user =
  user_id :: string
  user_name :: string

text \<open>
  A media reference \<^verbatim>\<open>{type: 'youtube|spotify', id: '...'}\<close>, as the comment on the
  \<^verbatim>\<open>rooms\<close> map describes it.
\<close>

datatype media = Media (media_type: string) (media_id: string)

text \<open>
  \<^verbatim>\<open>room.media\<close> is \<^verbatim>\<open>null\<close> in a new room, the loaded reference after
  \<^verbatim>\<open>load-media\<close>, and \<^verbatim>\<open>room.queue[room.currentIndex]\<close> after a navigation,
  which JavaScript evaluates to \<^verbatim>\<open>undefined\<close> when the index is not an index of
  the array.
\<close>

datatype slot = Null | Undefined | Item media

text \<open>
  \<^verbatim>\<open>room.currentIndex\<close> is a JavaScript number. The handlers only ever store integers
  in it, or \<^verbatim>\<open>NaN\<close>, the value of \<^verbatim>\<open>x % 0\<close>.
\<close>

datatype jsnum = Num int | NaN

fun js_add :: "jsnum \<Rightarrow> int \<Rightarrow> jsnum" where
  "js_add (Num a) k = Num (a + k)"
| "js_add NaN k = NaN"

text \<open>
  JavaScript's remainder \<^verbatim>\<open>a % n\<close>: the sign follows the dividend, and a zero
  divisor gives \<^verbatim>\<open>NaN\<close>.
\<close>

fun js_rem :: "jsnum \<Rightarrow> int \<Rightarrow> jsnum" where
  "js_rem (Num a) n = (if n = 0 then NaN else Num (sgn a * (\<bar>a\<bar> mod \<bar>n\<bar>)))"
| "js_rem NaN n = NaN"

text \<open>An array read \<^verbatim>\<open>xs[i]\<close>: \<^verbatim>\<open>undefined\<close> outside the array.\<close>

fun js_at :: "media list \<Rightarrow> jsnum \<Rightarrow> slot" where
  "js_at xs (Num i) = (if 0 \<le> i \<and> i < int (length xs) then Item (xs ! nat i) else Undefined)"
| "js_at xs NaN = Undefined"

text \<open>
  The value stored in the \<^verbatim>\<open>rooms\<close> map. Playback times are JavaScript numbers sent
  by clients; they are read here as real numbers.
\<close>

record room =
  hostId :: string
  media :: slot
  queue :: "media list"
  currentIndex :: jsnum
  isPlaying :: bool
  currentTime :: real
  users :: "user list"

type_synonym registry = "string \<rightharpoonup> room"

text \<open>
  The connection a handler runs for: \<^verbatim>\<open>socket.id\<close> and the contents of
  \<^verbatim>\<open>socket.rooms\<close> as the handler reads them (in iteration order). The room
  membership is kept by the transport, not by this program.
\<close>

record socket =
  sid :: string
  srooms :: "string list"

subsection \<open>Outbound events\<close>

text \<open>The payload of \<^verbatim>\<open>room-state\<close>.\<close>

record snapshot =
  snap_media :: slot
  snap_queue :: "media list"
  snap_currentIndex :: jsnum
  snap_isPlaying :: bool
  snap_currentTime :: real
  snap_hostId :: string
  snap_users :: "string list"

datatype event =
    Error string
  | UserJoined string
  | RoomState snapshot
  | RoomCreated string
  | MediaUpdated slot "media list" jsnum
  | SyncPlay real int int
  | SyncPause int
  | SyncSeek real int
  | NewChat string string int
  | VoiceOfferEv string string
  | VoiceAnswerEv string string
  | IceCandidateEv string string
  | UserLeft string

text \<open>
  Where an emit goes: \<^verbatim>\<open>socket.emit\<close> (the sender), \<^verbatim>\<open>io.to(r).emit\<close> (every
  connection in room \<open>r\<close>), \<^verbatim>\<open>socket.to(r1).to(r2)...emit\<close> (the listed rooms, the
  sender excluded).
\<close>

datatype target = Sender | Room string | Others "string list"

text \<open>What a handler asks of the transport, in program order.\<close>

datatype effect = Emit target event | Join string

subsection \<open>Delivery by the transport\<close>

text \<open>
  The broadcast operators of the socket.io library, which is not part of this program,
  as its documentation gives them: \<open>joined c\<close> is the set of rooms connection \<open>c\<close> is
  in (every connection is in the room named by its own id); \<^verbatim>\<open>io.to(r)\<close> reaches
  every connection in \<open>r\<close>; chained \<^verbatim>\<open>to\<close> calls reach the union of the rooms;
  \<^verbatim>\<open>socket.to\<close> leaves the sender out.
\<close>

fun receives :: "(string \<Rightarrow> string list) \<Rightarrow> string \<Rightarrow> target \<Rightarrow> string \<Rightarrow> bool" where
  "receives joined s Sender c = (c = s)"
| "receives joined s (Room r) c = (r \<in> set (joined c))"
| "receives joined s (Others rs) c = (c \<noteq> s \<and> (\<exists>r \<in> set rs. r \<in> set (joined c)))"

section \<open>Server handlers\<close>

text \<open>
  Every handler takes the connection, the values it reads from the environment
  (\<^verbatim>\<open>Date.now()\<close>, the results of \<^verbatim>\<open>generateRoomCode()\<close>), the fields of the
  request and the \<^verbatim>\<open>rooms\<close> map, and returns the map after the handler together
  with the effects it issued.
\<close>

definition join_room :: "socket \<Rightarrow> string \<Rightarrow> string \<Rightarrow> registry \<Rightarrow> registry \<times> effect list" where
  "join_room s roomCode userName rooms =
     (case rooms roomCode of
        None \<Rightarrow> (rooms, [Emit Sender (Error ''Room not found'')])
      | Some room \<Rightarrow>
          (let room' = room\<lparr>users := users room @ [\<lparr>user_id = sid s, user_name = userName\<rparr>]\<rparr>
           in (rooms(roomCode \<mapsto> room'),
               [Join roomCode,
                Emit (Others [roomCode]) (UserJoined userName),
                Emit Sender (RoomState
                  \<lparr>snap_media = media room', snap_queue = queue room',
                   snap_currentIndex = currentIndex room', snap_isPlaying = isPlaying room',
                   snap_currentTime = currentTime room', snap_hostId = hostId room',
                   snap_users = map user_name (users room')\<rparr>)])))"

text \<open>
  The \<^verbatim>\<open>do ... while (rooms.has(roomCode))\<close> loop of \<^verbatim>\<open>create-room\<close>, run on the
  successive results of \<^verbatim>\<open>generateRoomCode()\<close>. The list is the finite run of results
  the generator has given so far; when every one of them is taken the loop has not left,
  which is the value \<open>None\<close>.
\<close>

fun pick_code :: "string list \<Rightarrow> registry \<Rightarrow> string option" where
  "pick_code [] rooms = None"
| "pick_code (c # cs) rooms = (if rooms c \<noteq> None then pick_code cs rooms else Some c)"

definition create_room :: "socket \<Rightarrow> string list \<Rightarrow> string \<Rightarrow> registry \<Rightarrow> (registry \<times> effect list) option" where
  "create_room s codes userName rooms =
     (case pick_code codes rooms of
        None \<Rightarrow> None
      | Some roomCode \<Rightarrow>
          Some (rooms(roomCode \<mapsto>
                  \<lparr>hostId = sid s, media = Null, queue = [], currentIndex = Num 0,
                   isPlaying = False, currentTime = 0,
                   users = [\<lparr>user_id = sid s, user_name = userName\<rparr>]\<rparr>),
                [Emit Sender (RoomCreated roomCode), Join roomCode]))"

definition load_media :: "socket \<Rightarrow> string \<Rightarrow> media \<Rightarrow> bool \<Rightarrow> registry \<Rightarrow> registry \<times> effect list" where
  "load_media s roomCode m addToQueue rooms =
     (case rooms roomCode of
        None \<Rightarrow> (rooms, [])
      | Some room \<Rightarrow>
          if roomCode \<notin> set (srooms s) then (rooms, [])
          else if hostId room \<noteq> sid s then (rooms, [])
          else
            (let room' =
                   (if addToQueue then room\<lparr>queue := queue room @ [m]\<rparr>
                    else room\<lparr>media := Item m, currentIndex := Num 0, queue := [m]\<rparr>)
             in (rooms(roomCode \<mapsto> room'),
                 [Emit (Room roomCode) (MediaUpdated (Item m) (queue room') (currentIndex room'))])))"

definition play :: "socket \<Rightarrow> int \<Rightarrow> string \<Rightarrow> real \<Rightarrow> registry \<Rightarrow> registry \<times> effect list" where
  "play s now roomCode t rooms =
     (case rooms roomCode of
        None \<Rightarrow> (rooms, [])
      | Some room \<Rightarrow>
          if roomCode \<notin> set (srooms s) then (rooms, [])
          else if hostId room \<noteq> sid s then (rooms, [])
          else (rooms(roomCode \<mapsto> room\<lparr>isPlaying := True, currentTime := t\<rparr>),
                [Emit (Room roomCode) (SyncPlay t now 0)]))"

definition pause :: "socket \<Rightarrow> int \<Rightarrow> string \<Rightarrow> registry \<Rightarrow> registry \<times> effect list" where
  "pause s now roomCode rooms =
     (case rooms roomCode of
        None \<Rightarrow> (rooms, [])
      | Some room \<Rightarrow>
          if roomCode \<notin> set (srooms s) then (rooms, [])
          else if hostId room \<noteq> sid s then (rooms, [])
          else (rooms(roomCode \<mapsto> room\<lparr>isPlaying := False\<rparr>),
                [Emit (Room roomCode) (SyncPause now)]))"

definition seek :: "socket \<Rightarrow> int \<Rightarrow> string \<Rightarrow> real \<Rightarrow> registry \<Rightarrow> registry \<times> effect list" where
  "seek s now roomCode newTime rooms =
     (case rooms roomCode of
        None \<Rightarrow> (rooms, [])
      | Some room \<Rightarrow>
          if roomCode \<notin> set (srooms s) then (rooms, [])
          else if hostId room \<noteq> sid s then (rooms, [])
          else (rooms(roomCode \<mapsto> room\<lparr>currentTime := newTime\<rparr>),
                [Emit (Room roomCode) (SyncSeek newTime now)]))"

definition next_video :: "socket \<Rightarrow> int \<Rightarrow> string \<Rightarrow> registry \<Rightarrow> registry \<times> effect list" where
  "next_video s now roomCode rooms =
     (case rooms roomCode of
        None \<Rightarrow> (rooms, [])
      | Some room \<Rightarrow>
          if roomCode \<notin> set (srooms s) then (rooms, [])
          else if hostId room \<noteq> sid s then (rooms, [])
          else
            (let i = js_rem (js_add (currentIndex room) 1) (int (length (queue room)));
                 room' = room\<lparr>currentIndex := i, media := js_at (queue room) i,
                              currentTime := 0, isPlaying := False\<rparr>
             in (rooms(roomCode \<mapsto> room'),
                 [Emit (Room roomCode) (MediaUpdated (media room') (queue room') (currentIndex room')),
                  Emit (Room roomCode) (SyncSeek 0 now)])))"

definition prev_video :: "socket \<Rightarrow> int \<Rightarrow> string \<Rightarrow> registry \<Rightarrow> registry \<times> effect list" where
  "prev_video s now roomCode rooms =
     (case rooms roomCode of
        None \<Rightarrow> (rooms, [])
      | Some room \<Rightarrow>
          if roomCode \<notin> set (srooms s) then (rooms, [])
          else if hostId room \<noteq> sid s then (rooms, [])
          else
            (let i = js_rem (js_add (js_add (currentIndex room) (- 1)) (int (length (queue room))))
                            (int (length (queue room)));
                 room' = room\<lparr>currentIndex := i, media := js_at (queue room) i,
                              currentTime := 0, isPlaying := False\<rparr>
             in (rooms(roomCode \<mapsto> room'),
                 [Emit (Room roomCode) (MediaUpdated (media room') (queue room') (currentIndex room')),
                  Emit (Room roomCode) (SyncSeek 0 now)])))"

text \<open>
  \<^verbatim>\<open>send-chat\<close>: the name is taken from the first entry of \<^verbatim>\<open>room.users\<close> with the
  sender's id (\<^verbatim>\<open>Array.prototype.find\<close>); the \<^verbatim>\<open>userName\<close> of the request is not
  used.
\<close>

definition send_chat :: "socket \<Rightarrow> int \<Rightarrow> string \<Rightarrow> string \<Rightarrow> registry \<Rightarrow> registry \<times> effect list" where
  "send_chat s now roomCode message rooms =
     (case rooms roomCode of
        None \<Rightarrow> (rooms, [])
      | Some room \<Rightarrow>
          if roomCode \<notin> set (srooms s) then (rooms, [])
          else (case find (\<lambda>u. user_id u = sid s) (users room) of
                  None \<Rightarrow> (rooms, [])
                | Some u \<Rightarrow> (rooms, [Emit (Room roomCode) (NewChat (user_name u) message now)])))"

text \<open>The three signalling handlers: no check, one emit.\<close>

definition voice_offer :: "socket \<Rightarrow> string \<Rightarrow> string \<Rightarrow> string \<Rightarrow> registry \<Rightarrow> registry \<times> effect list" where
  "voice_offer s roomCode offer targetId rooms =
     (rooms, [Emit (Others [targetId, roomCode]) (VoiceOfferEv offer (sid s))])"

definition voice_answer :: "socket \<Rightarrow> string \<Rightarrow> string \<Rightarrow> string \<Rightarrow> registry \<Rightarrow> registry \<times> effect list" where
  "voice_answer s roomCode answer targetId rooms =
     (rooms, [Emit (Others [targetId, roomCode]) (VoiceAnswerEv answer (sid s))])"

definition ice_candidate :: "socket \<Rightarrow> string \<Rightarrow> string \<Rightarrow> string \<Rightarrow> registry \<Rightarrow> registry \<times> effect list" where
  "ice_candidate s roomCode candidate targetId rooms =
     (rooms, [Emit (Others [targetId, roomCode]) (IceCandidateEv candidate (sid s))])"

text \<open>
  One round of the loop of the \<^verbatim>\<open>disconnect\<close> handler: the effects are collected in
  the second component.
\<close>

definition disconnect_room :: "socket \<Rightarrow> string \<Rightarrow> registry \<times> effect list \<Rightarrow> registry \<times> effect list" where
  "disconnect_room s roomCode st =
     (case fst st roomCode of
        None \<Rightarrow> st
      | Some room \<Rightarrow>
          if roomCode = sid s then st
          else
            (let us = filter (\<lambda>u. user_id u \<noteq> sid s) (users room);
                 room1 = room\<lparr>users := us\<rparr>;
                 room2 = (if hostId room1 = sid s \<and> length us > 0
                          then room1\<lparr>hostId := user_id (us ! 0)\<rparr> else room1);
                 rooms2 = (fst st)(roomCode \<mapsto> room2)
             in ((if length us = 0 then rooms2(roomCode := None) else rooms2),
                 snd st @ [Emit (Room roomCode) (UserLeft (sid s))])))"

definition disconnect :: "socket \<Rightarrow> registry \<Rightarrow> registry \<times> effect list" where
  "disconnect s rooms = fold (disconnect_room s) (srooms s) (rooms, [])"

subsection \<open>Dispatch\<close>

datatype request =
    JoinRoom string string
  | CreateRoom string
  | LoadMedia string media bool
  | Play string real
  | Pause string
  | Seek string real
  | NextVideo string
  | PrevVideo string
  | SendChat string string
  | VoiceOffer string string string
  | VoiceAnswer string string string
  | IceCandidate string string string
  | Disconnect

text \<open>
  One inbound event: the connection, the clock reading, the results the code generator
  gives during the call, and the request.
\<close>

fun handle :: "socket \<Rightarrow> int \<Rightarrow> string list \<Rightarrow> request \<Rightarrow> registry \<Rightarrow> (registry \<times> effect list) option" where
  "handle s now codes (JoinRoom roomCode userName) rooms = Some (join_room s roomCode userName rooms)"
| "handle s now codes (CreateRoom userName) rooms = create_room s codes userName rooms"
| "handle s now codes (LoadMedia roomCode m addToQueue) rooms = Some (load_media s roomCode m addToQueue rooms)"
| "handle s now codes (Play roomCode t) rooms = Some (play s now roomCode t rooms)"
| "handle s now codes (Pause roomCode) rooms = Some (pause s now roomCode rooms)"
| "handle s now codes (Seek roomCode newTime) rooms = Some (seek s now roomCode newTime rooms)"
| "handle s now codes (NextVideo roomCode) rooms = Some (next_video s now roomCode rooms)"
| "handle s now codes (PrevVideo roomCode) rooms = Some (prev_video s now roomCode rooms)"
| "handle s now codes (SendChat roomCode message) rooms = Some (send_chat s now roomCode message rooms)"
| "handle s now codes (VoiceOffer roomCode offer targetId) rooms = Some (voice_offer s roomCode offer targetId rooms)"
| "handle s now codes (VoiceAnswer roomCode answer targetId) rooms = Some (voice_answer s roomCode answer targetId rooms)"
| "handle s now codes (IceCandidate roomCode candidate targetId) rooms = Some (ice_candidate s roomCode candidate targetId rooms)"
| "handle s now codes Disconnect rooms = Some (disconnect s rooms)"

type_synonym call = "socket \<times> int \<times> string list \<times> request"

text \<open>
  The server processes inbound events one at a time, starting from the empty map. A
  \<^verbatim>\<open>create-room\<close> whose loop does not leave gives no next state.
\<close>

fun run :: "call list \<Rightarrow> registry \<Rightarrow> registry option" where
  "run [] rooms = Some rooms"
| "run ((s, now, codes, req) # cs) rooms =
     (case handle s now codes req rooms of
        None \<Rightarrow> None
      | Some (rooms', out) \<Rightarrow> run cs rooms')"

section \<open>Client handler\<close>

datatype player_cmd = SeekTo real bool | PlayVideo

text \<open>
  The client's \<^verbatim>\<open>sync-play\<close> handler; \<open>localNow\<close> is the client's \<^verbatim>\<open>Date.now()\<close>.
\<close>

definition on_sync_play :: "int \<Rightarrow> real \<Rightarrow> int \<Rightarrow> player_cmd list" where
  "on_sync_play localNow t timestamp =
     (let offset = real_of_int (localNow - timestamp) / 1000
      in [SeekTo (t + offset) True, PlayVideo])"

text \<open>
  What the client does on an inbound event. The client registers one handler, for
  \<^verbatim>\<open>sync-play\<close>; the \<^verbatim>\<open>offset\<close> field of the payload is not read.
\<close>

fun client_on :: "int \<Rightarrow> event \<Rightarrow> player_cmd list" where
  "client_on localNow (SyncPlay t timestamp offset) = on_sync_play localNow t timestamp"
| "client_on localNow ev = []"

section \<open>Predicates of the properties\<close>

text \<open>
  The host of a room is one of the entries of its \<^verbatim>\<open>users\<close> list.
\<close>

definition host_ok :: "room \<Rightarrow> bool" where
  "host_ok r = (hostId r \<in> user_id ` set (users r))"

definition host_inv :: "registry \<Rightarrow> bool" where
  "host_inv rooms = (\<forall>code r. rooms code = Some r \<longrightarrow> host_ok r)"

text \<open>
  No two entries of \<^verbatim>\<open>room.users\<close> have the same connection id.
\<close>

definition ids_distinct :: "room \<Rightarrow> bool" where
  "ids_distinct r = distinct (map user_id (users r))"




text \<open>
  The host-only requests (\<^verbatim>\<open>load-media\<close>, \<^verbatim>\<open>play\<close>, \<^verbatim>\<open>pause\<close>, \<^verbatim>\<open>seek\<close>,
  \<^verbatim>\<open>next-video\<close>, \<^verbatim>\<open>prev-video\<close>) and the room each one names.
\<close>

fun control_room :: "request \<Rightarrow> string option" where
  "control_room (LoadMedia roomCode m addToQueue) = Some roomCode"
| "control_room (Play roomCode t) = Some roomCode"
| "control_room (Pause roomCode) = Some roomCode"
| "control_room (Seek roomCode newTime) = Some roomCode"
| "control_room (NextVideo roomCode) = Some roomCode"
| "control_room (PrevVideo roomCode) = Some roomCode"
| "control_room req = None"

text \<open>
  A sequence of navigation requests of one connection on one room, each with the clock
  reading of its call.
\<close>

datatype nav = Next | Prev

fun nav_request :: "string \<Rightarrow> nav \<Rightarrow> request" where
  "nav_request roomCode Next = NextVideo roomCode"
| "nav_request roomCode Prev = PrevVideo roomCode"

definition nav_calls :: "socket \<Rightarrow> string \<Rightarrow> (nav \<times> int) list \<Rightarrow> call list" where
  "nav_calls s roomCode ds = map (\<lambda>(d, now). (s, now, [], nav_request roomCode d)) ds"

section \<open>Example connections and rooms\<close>

text \<open>
  Connection A as the handlers see it before it is in any room but its own, once it is
  in room ABC123, and when its \<^verbatim>\<open>disconnect\<close> handler runs; connection B likewise.
\<close>

abbreviation A_new :: socket where
  "A_new \<equiv> \<lparr>sid = ''A'', srooms = [''A'']\<rparr>"

abbreviation A_in :: socket where
  "A_in \<equiv> \<lparr>sid = ''A'', srooms = [''A'', ''ABC123'']\<rparr>"

abbreviation A_closed :: socket where
  "A_closed \<equiv> \<lparr>sid = ''A'', srooms = []\<rparr>"

abbreviation B_new :: socket where
  "B_new \<equiv> \<lparr>sid = ''B'', srooms = [''B'']\<rparr>"

abbreviation B_in :: socket where
  "B_in \<equiv> \<lparr>sid = ''B'', srooms = [''B'', ''ABC123'']\<rparr>"

abbreviation ann :: user where
  "ann \<equiv> \<lparr>user_id = ''A'', user_name = ''ann''\<rparr>"

abbreviation bob :: user where
  "bob \<equiv> \<lparr>user_id = ''B'', user_name = ''bob''\<rparr>"

text \<open>The room as \<^verbatim>\<open>create-room\<close> of A makes it.\<close>

abbreviation new_room :: room where
  "new_room \<equiv> \<lparr>hostId = ''A'', media = Null, queue = [], currentIndex = Num 0,
                isPlaying = False, currentTime = 0, users = [ann]\<rparr>"

abbreviation three_videos :: "media list" where
  "three_videos \<equiv> [Media ''youtube'' ''a1'', Media ''youtube'' ''b2'', Media ''spotify'' ''c3'']"

text \<open>
  The transport's membership when A, B and C are in room ABC123 and every other
  connection is in the room of its own id only.
\<close>

abbreviation three_joined :: "string \<Rightarrow> string list" where
  "three_joined \<equiv> (\<lambda>c. [c])(''A'' := [''A'', ''ABC123''], ''B'' := [''B'', ''ABC123''],
                                ''C'' := [''C'', ''ABC123''])"

section \<open>The host is a member\<close>

lemma host_ok_frame [simp]:
  "host_ok (r\<lparr>queue := q\<rparr>) = host_ok r"
  "host_ok (r\<lparr>media := m\<rparr>) = host_ok r"
  "host_ok (r\<lparr>currentIndex := i\<rparr>) = host_ok r"
  "host_ok (r\<lparr>isPlaying := b\<rparr>) = host_ok r"
  "host_ok (r\<lparr>currentTime := t\<rparr>) = host_ok r"
  by (simp_all add: host_ok_def)

lemma host_ok_push: "host_ok r \<Longrightarrow> host_ok (r\<lparr>users := users r @ [u]\<rparr>)"
  by (auto simp: host_ok_def)

lemma host_inv_upd:
  "host_inv rooms \<Longrightarrow> host_ok r \<Longrightarrow> host_inv (rooms(code \<mapsto> r))"
  by (simp add: host_inv_def)

lemma host_inv_del: "host_inv rooms \<Longrightarrow> host_inv (rooms(code := None))"
  by (simp add: host_inv_def)

lemma host_inv_lookup: "host_inv rooms \<Longrightarrow> rooms code = Some r \<Longrightarrow> host_ok r"
  by (simp add: host_inv_def)

lemma pick_code_free: "pick_code codes rooms = Some c \<Longrightarrow> rooms c = None"
  by (induction codes) (auto split: if_splits)

lemma host_inv_join: "host_inv rooms \<Longrightarrow> host_inv (fst (join_room s roomCode userName rooms))"
  by (auto simp: join_room_def Let_def split: option.splits intro!: host_inv_upd host_ok_push dest: host_inv_lookup)

lemma host_inv_create: "host_inv rooms \<Longrightarrow> create_room s codes userName rooms = Some (rooms', out) \<Longrightarrow> host_inv rooms'"
  by (auto simp: create_room_def host_ok_def split: option.splits intro!: host_inv_upd)

lemma host_inv_load: "host_inv rooms \<Longrightarrow> host_inv (fst (load_media s roomCode m a rooms))"
  by (auto simp: load_media_def Let_def split: option.splits intro!: host_inv_upd dest: host_inv_lookup)

lemma host_inv_play: "host_inv rooms \<Longrightarrow> host_inv (fst (play s now roomCode t rooms))"
  by (auto simp: play_def split: option.splits intro!: host_inv_upd dest: host_inv_lookup)

lemma host_inv_pause: "host_inv rooms \<Longrightarrow> host_inv (fst (pause s now roomCode rooms))"
  by (auto simp: pause_def split: option.splits intro!: host_inv_upd dest: host_inv_lookup)

lemma host_inv_seek: "host_inv rooms \<Longrightarrow> host_inv (fst (seek s now roomCode t rooms))"
  by (auto simp: seek_def split: option.splits intro!: host_inv_upd dest: host_inv_lookup)

lemma host_inv_next: "host_inv rooms \<Longrightarrow> host_inv (fst (next_video s now roomCode rooms))"
  by (auto simp: next_video_def Let_def split: option.splits intro!: host_inv_upd dest: host_inv_lookup)

lemma host_inv_prev: "host_inv rooms \<Longrightarrow> host_inv (fst (prev_video s now roomCode rooms))"
  by (auto simp: prev_video_def Let_def split: option.splits intro!: host_inv_upd dest: host_inv_lookup)

lemma host_inv_chat: "host_inv rooms \<Longrightarrow> host_inv (fst (send_chat s now roomCode msg rooms))"
  by (auto simp: send_chat_def split: option.splits)

lemma host_inv_disconnect_room: "host_inv (fst st) \<Longrightarrow> host_inv (fst (disconnect_room s roomCode st))"
proof (cases "fst st roomCode")
  case None
  then show "host_inv (fst st) \<Longrightarrow> ?thesis" by (simp add: disconnect_room_def)
next
  case (Some room)
  assume inv: "host_inv (fst st)"
  let ?us = "filter (\<lambda>u. user_id u \<noteq> sid s) (users room)"
  from inv Some have "host_ok room"
    by (rule host_inv_lookup)
  then have mem: "hostId room \<in> user_id ` set (users room)"
    by (simp add: host_ok_def)
  show ?thesis
  proof (cases "roomCode = sid s")
    case True
    with Some inv show ?thesis by (simp add: disconnect_room_def)
  next
    case False
    show ?thesis
    proof (cases ?us)
      case Nil
      with Some False inv show ?thesis
        by (simp add: disconnect_room_def Let_def host_inv_del)
    next
      case (Cons u us')
      show ?thesis
      proof (cases "hostId room = sid s")
        case True
        with Some False Cons inv show ?thesis
          by (simp add: disconnect_room_def Let_def host_inv_upd host_ok_def)
      next
        case h: False
        from mem h have "hostId room \<in> user_id ` set ?us" by auto
        with Some False Cons h inv show ?thesis
          by (simp add: disconnect_room_def Let_def host_inv_upd host_ok_def)
      qed
    qed
  qed
qed

lemma host_inv_fold: "host_inv (fst st) \<Longrightarrow> host_inv (fst (fold (disconnect_room s) cs st))"
  by (induction cs arbitrary: st) (simp_all add: host_inv_disconnect_room)

lemma host_inv_disconnect: "host_inv rooms \<Longrightarrow> host_inv (fst (disconnect s rooms))"
  by (simp add: disconnect_def host_inv_fold)

lemma host_inv_handle:
  "host_inv rooms \<Longrightarrow> handle s now codes req rooms = Some p \<Longrightarrow> host_inv (fst p)"
proof (cases req)
  case (CreateRoom n)
  then show "host_inv rooms \<Longrightarrow> handle s now codes req rooms = Some p \<Longrightarrow> ?thesis"
    by (cases p) (simp add: host_inv_create)
qed (auto simp: host_inv_join host_inv_load host_inv_play host_inv_pause host_inv_seek host_inv_next
            host_inv_prev host_inv_chat host_inv_disconnect voice_offer_def voice_answer_def ice_candidate_def)

lemma host_inv_run: "host_inv rooms \<Longrightarrow> run cs rooms = Some rooms' \<Longrightarrow> host_inv rooms'"
proof (induction cs arbitrary: rooms)
  case Nil
  then show ?case by simp
next
  case (Cons c cs)
  obtain s now codes req where c: "c = (s, now, codes, req)" by (cases c) auto
  from Cons.prems(2) c obtain rooms1 out where
    h: "handle s now codes req rooms = Some (rooms1, out)" and r: "run cs rooms1 = Some rooms'"
    by (auto split: option.splits)
  from Cons.prems(1) h have "host_inv (fst (rooms1, out))" by (rule host_inv_handle)
  then have "host_inv rooms1" by simp
  then show ?case using r by (rule Cons.IH)
qed

text \<open>
  C1. In every state the server reaches from the empty map, by any sequence of inbound
  events on any connections, every room of the map has a host whose id is the id of an
  entry of the room's \<^verbatim>\<open>users\<close> list. The \<^verbatim>\<open>disconnect\<close> handler is taken on any
  contents of \<^verbatim>\<open>socket.rooms\<close>.
\<close>

theorem host_is_member:
  "run cs Map.empty = Some rooms \<Longrightarrow> rooms code = Some r \<Longrightarrow> \<exists>u \<in> set (users r). user_id u = hostId r"
proof -
  assume a: "run cs Map.empty = Some rooms" and b: "rooms code = Some r"
  have "host_inv Map.empty" by (simp add: host_inv_def)
  then have "host_inv rooms" using a by (rule host_inv_run)
  then have "host_ok r" using b by (rule host_inv_lookup)
  then show ?thesis by (auto simp: host_ok_def)
qed

theorem host_is_member_witness:
  "run [(A_new, 1000, [''ABC123''], CreateRoom ''ann''),
        (B_new, 2000, [], JoinRoom ''ABC123'' ''bob''),
        (A_in, 3000, [], Pause ''ABC123'')] Map.empty
     = Some [''ABC123'' \<mapsto> new_room\<lparr>users := [ann, bob]\<rparr>]
   \<and> [''ABC123'' \<mapsto> new_room\<lparr>users := [ann, bob]\<rparr>] ''ABC123''
     = Some (new_room\<lparr>users := [ann, bob]\<rparr>)
   \<and> (\<exists>u \<in> set (users (new_room\<lparr>users := [ann, bob]\<rparr>)).
         user_id u = hostId (new_room\<lparr>users := [ann, bob]\<rparr>))"
proof -
  let ?cs = "[(A_new, 1000, [''ABC123''], CreateRoom ''ann''),
              (B_new, 2000, [], JoinRoom ''ABC123'' ''bob''),
              (A_in, 3000, [], Pause ''ABC123'')]"
  let ?r = "new_room\<lparr>users := [ann, bob]\<rparr>"
  have a: "run ?cs Map.empty = Some [''ABC123'' \<mapsto> ?r]"
    by (simp add: create_room_def join_room_def pause_def)
  have b: "[''ABC123'' \<mapsto> ?r] ''ABC123'' = Some ?r" by simp
  from host_is_member [OF a b] a b show ?thesis by blast
qed

section \<open>Queue navigation\<close>

lemma js_rem_nonneg: "0 \<le> a \<Longrightarrow> 0 < n \<Longrightarrow> js_rem (Num a) n = Num (a mod n)"
  by (cases "a = 0") (simp_all add: sgn_if)

lemma next_video_host:
  assumes "rooms roomCode = Some room" "hostId room = sid s" "roomCode \<in> set (srooms s)"
    and "currentIndex room = Num i" "0 \<le> i" "queue room \<noteq> []"
  shows "fst (next_video s now roomCode rooms) =
         rooms(roomCode \<mapsto> room\<lparr>currentIndex := Num ((i + 1) mod int (length (queue room))),
                 media := js_at (queue room) (Num ((i + 1) mod int (length (queue room)))),
                 currentTime := 0, isPlaying := False\<rparr>)"
  using assms by (simp add: next_video_def Let_def js_rem_nonneg)

lemma prev_video_host:
  assumes "rooms roomCode = Some room" "hostId room = sid s" "roomCode \<in> set (srooms s)"
    and "currentIndex room = Num i" "0 \<le> i" "queue room \<noteq> []"
  shows "fst (prev_video s now roomCode rooms) =
         rooms(roomCode \<mapsto> room\<lparr>currentIndex := Num ((i - 1) mod int (length (queue room))),
                 media := js_at (queue room) (Num ((i - 1) mod int (length (queue room)))),
                 currentTime := 0, isPlaying := False\<rparr>)"
proof -
  let ?n = "int (length (queue room))"
  from assms(6) have n: "0 < ?n" by simp
  from assms(5) n have nn: "0 \<le> i - 1 + ?n" by linarith
  have m: "(i - 1 + ?n) mod ?n = (i - 1) mod ?n" by simp
  have "js_add (js_add (currentIndex room) (- 1)) ?n = Num (i - 1 + ?n)"
    using assms(4) by simp
  moreover have "js_rem (Num (i - 1 + ?n)) ?n = Num ((i - 1 + ?n) mod ?n)"
    using nn n by (rule js_rem_nonneg)
  ultimately have "js_rem (js_add (js_add (currentIndex room) (- 1)) ?n) ?n = Num ((i - 1) mod ?n)"
    using m by simp
  then show ?thesis using assms(1-3) by (simp add: prev_video_def Let_def)
qed

lemma nav_step:
  assumes "rooms roomCode = Some room" "hostId room = sid s" "roomCode \<in> set (srooms s)"
    and "currentIndex room = Num i" "0 \<le> i" "queue room \<noteq> []"
  shows "\<exists>rooms1 room1 out. handle s now codes (nav_request roomCode d) rooms = Some (rooms1, out) \<and>
           rooms1 roomCode = Some room1 \<and> hostId room1 = hostId room \<and> queue room1 = queue room \<and>
           currentIndex room1 = Num ((i + (if d = Next then 1 else - 1)) mod int (length (queue room)))"
proof (cases d)
  case Next
  let ?p = "next_video s now roomCode rooms"
  let ?r = "room\<lparr>currentIndex := Num ((i + 1) mod int (length (queue room))),
                 media := js_at (queue room) (Num ((i + 1) mod int (length (queue room)))),
                 currentTime := 0, isPlaying := False\<rparr>"
  have 1: "handle s now codes (nav_request roomCode d) rooms = Some (fst ?p, snd ?p)"
    using Next by simp
  have 2: "fst ?p roomCode = Some ?r"
    by (simp only: next_video_host [of rooms roomCode room s i now, OF assms] fun_upd_same)
  have 3: "hostId ?r = hostId room" "queue ?r = queue room"
    "currentIndex ?r = Num ((i + (if d = Next then 1 else - 1)) mod int (length (queue room)))"
    using Next by simp_all
  from 1 2 3 show ?thesis by blast
next
  case Prev
  let ?p = "prev_video s now roomCode rooms"
  let ?r = "room\<lparr>currentIndex := Num ((i - 1) mod int (length (queue room))),
                 media := js_at (queue room) (Num ((i - 1) mod int (length (queue room)))),
                 currentTime := 0, isPlaying := False\<rparr>"
  have 1: "handle s now codes (nav_request roomCode d) rooms = Some (fst ?p, snd ?p)"
    using Prev by simp
  have 2: "fst ?p roomCode = Some ?r"
    by (simp only: prev_video_host [of rooms roomCode room s i now, OF assms] fun_upd_same)
  have 3: "hostId ?r = hostId room" "queue ?r = queue room"
    "currentIndex ?r = Num ((i + (if d = Next then 1 else - 1)) mod int (length (queue room)))"
    using Prev by simp_all
  from 1 2 3 show ?thesis by blast
qed

lemma nav_run:
  assumes "rooms roomCode = Some room" "hostId room = sid s" "roomCode \<in> set (srooms s)"
    and "currentIndex room = Num i" "0 \<le> i" "i < int (length (queue room))"
  shows "\<exists>rooms' room'. run (nav_calls s roomCode ds) rooms = Some rooms' \<and>
           rooms' roomCode = Some room' \<and> hostId room' = hostId room \<and> queue room' = queue room \<and>
           currentIndex room' =
             Num ((i + int (count_list (map fst ds) Next) - int (count_list (map fst ds) Prev))
                  mod int (length (queue room)))"
  using assms
proof (induction ds arbitrary: rooms room i)
  case Nil
  then show ?case by (simp add: nav_calls_def)
next
  case (Cons a ds)
  obtain d t where a: "a = (d, t)" by (cases a) auto
  let ?n = "int (length (queue room))"
  let ?k = "if d = Next then 1 else - 1 :: int"
  from Cons.prems have ne: "queue room \<noteq> []" by auto
  from nav_step [of rooms roomCode room s i t "[]" d, OF Cons.prems(1-5) ne]
  obtain rooms1 room1 out where
    h: "handle s t [] (nav_request roomCode d) rooms = Some (rooms1, out)" and
    r1: "rooms1 roomCode = Some room1" and h1: "hostId room1 = hostId room" and
    q1: "queue room1 = queue room" and i1: "currentIndex room1 = Num ((i + ?k) mod ?n)"
    by blast
  from ne have n: "0 < ?n" by simp
  have lo: "0 \<le> (i + ?k) mod ?n" using n by simp
  have hi: "(i + ?k) mod ?n < int (length (queue room1))" using n q1 by simp
  from h1 Cons.prems(2) have h1': "hostId room1 = sid s" by simp
  from Cons.IH [of rooms1 room1 "(i + ?k) mod ?n", OF r1 h1' Cons.prems(3) i1 lo hi]
  obtain rooms' room' where
    run: "run (nav_calls s roomCode ds) rooms1 = Some rooms'" and
    r': "rooms' roomCode = Some room'" and h': "hostId room' = hostId room1" and
    q': "queue room' = queue room1" and
    i': "currentIndex room' =
           Num (((i + ?k) mod ?n + int (count_list (map fst ds) Next) - int (count_list (map fst ds) Prev))
                mod int (length (queue room1)))"
    by blast
  have run': "run (nav_calls s roomCode (a # ds)) rooms = Some rooms'"
    using a h run by (simp add: nav_calls_def)
  have "((i + ?k) mod ?n + int (count_list (map fst ds) Next) - int (count_list (map fst ds) Prev)) mod ?n
        = (i + int (count_list (map fst (a # ds)) Next) - int (count_list (map fst (a # ds)) Prev)) mod ?n"
  proof -
    have "((i + ?k) mod ?n + int (count_list (map fst ds) Next) - int (count_list (map fst ds) Prev)) mod ?n
          = ((i + ?k) + int (count_list (map fst ds) Next) - int (count_list (map fst ds) Prev)) mod ?n"
      by (metis mod_add_left_eq mod_diff_left_eq)
    also have "(i + ?k) + int (count_list (map fst ds) Next) - int (count_list (map fst ds) Prev)
          = i + int (count_list (map fst (a # ds)) Next) - int (count_list (map fst (a # ds)) Prev)"
      using a by (cases d) simp_all
    finally show ?thesis .
  qed
  with i' q1 have "currentIndex room' =
      Num ((i + int (count_list (map fst (a # ds)) Next) - int (count_list (map fst (a # ds)) Prev)) mod ?n)"
    by simp
  with run' r' h' h1 q' q1 show ?case by simp
qed

text \<open>
  While \<^verbatim>\<open>currentIndex\<close> is an index \<open>i\<close> of a queue of \<open>N\<close> entries, navigation by
  the host is modular: after any sequence of \<^verbatim>\<open>next-video\<close> and \<^verbatim>\<open>prev-video\<close>
  requests the queue is the same and \<^verbatim>\<open>currentIndex\<close> is
  \<open>(i + #next - #prev) mod N\<close>, a number of \<open>[0, N)\<close>. One \<^verbatim>\<open>next-video\<close> at the last
  index gives 0 and otherwise \<open>i + 1\<close>; one \<^verbatim>\<open>prev-video\<close> at 0 gives \<open>N - 1\<close> and
  otherwise \<open>i - 1\<close>. The handlers do not keep \<^verbatim>\<open>currentIndex\<close> an index of the queue:
  see below.
\<close>

lemma navigation_index:
  assumes "rooms roomCode = Some room" and "hostId room = sid s" and "roomCode \<in> set (srooms s)"
    and "currentIndex room = Num i" and "0 \<le> i" and "i < int (length (queue room))"
  shows "(\<exists>rooms' room'.
            run (nav_calls s roomCode ds) rooms = Some rooms' \<and> rooms' roomCode = Some room' \<and>
            queue room' = queue room \<and>
            currentIndex room' =
              Num ((i + int (count_list (map fst ds) Next) - int (count_list (map fst ds) Prev))
                   mod int (length (queue room)))) \<and>
         0 \<le> (i + int (count_list (map fst ds) Next) - int (count_list (map fst ds) Prev))
                mod int (length (queue room)) \<and>
         (i + int (count_list (map fst ds) Next) - int (count_list (map fst ds) Prev))
                mod int (length (queue room)) < int (length (queue room)) \<and>
         map_option currentIndex (fst (next_video s now roomCode rooms) roomCode) =
           Some (Num (if i + 1 = int (length (queue room)) then 0 else i + 1)) \<and>
         map_option currentIndex (fst (prev_video s now roomCode rooms) roomCode) =
           Some (Num (if i = 0 then int (length (queue room)) - 1 else i - 1))"
proof -
  let ?n = "int (length (queue room))"
  from assms(5,6) have ne: "queue room \<noteq> []" by auto
  then have n: "0 < ?n" by simp
  have a: "\<exists>rooms' room'.
            run (nav_calls s roomCode ds) rooms = Some rooms' \<and> rooms' roomCode = Some room' \<and>
            queue room' = queue room \<and>
            currentIndex room' =
              Num ((i + int (count_list (map fst ds) Next) - int (count_list (map fst ds) Prev)) mod ?n)"
    using nav_run [of rooms roomCode room s i ds, OF assms] by blast
  have b: "0 \<le> (i + int (count_list (map fst ds) Next) - int (count_list (map fst ds) Prev)) mod ?n"
    using n by simp
  have c: "(i + int (count_list (map fst ds) Next) - int (count_list (map fst ds) Prev)) mod ?n < ?n"
    using n by simp
  have "(i + 1) mod ?n = (if i + 1 = ?n then 0 else i + 1)"
    using assms(5,6) by simp
  then have d: "map_option currentIndex (fst (next_video s now roomCode rooms) roomCode) =
           Some (Num (if i + 1 = ?n then 0 else i + 1))"
    by (simp add: next_video_host [of rooms roomCode room s i now, OF assms(1-5) ne])
  have "(i - 1) mod ?n = (if i = 0 then ?n - 1 else i - 1)"
  proof (cases "i = 0")
    case True
    have "(- 1) mod ?n = ?n - 1" using n by (simp add: zmod_minus1)
    with True show ?thesis by simp
  next
    case False
    with assms(5,6) show ?thesis by simp
  qed
  then have e: "map_option currentIndex (fst (prev_video s now roomCode rooms) roomCode) =
           Some (Num (if i = 0 then ?n - 1 else i - 1))"
    by (simp add: prev_video_host [of rooms roomCode room s i now, OF assms(1-5) ne])
  from a b c d e show ?thesis by blast
qed

lemma navigation_index_example:
  "[''ABC123'' \<mapsto> new_room\<lparr>media := Item (Media ''spotify'' ''c3''), queue := three_videos,
                               currentIndex := Num 2\<rparr>] ''ABC123''
     = Some (new_room\<lparr>media := Item (Media ''spotify'' ''c3''), queue := three_videos,
                      currentIndex := Num 2\<rparr>)
   \<and> hostId (new_room\<lparr>media := Item (Media ''spotify'' ''c3''), queue := three_videos,
                       currentIndex := Num 2\<rparr>) = sid A_in
   \<and> ''ABC123'' \<in> set (srooms A_in)
   \<and> currentIndex (new_room\<lparr>media := Item (Media ''spotify'' ''c3''), queue := three_videos,
                             currentIndex := Num 2\<rparr>) = Num 2
   \<and> (0::int) \<le> 2
   \<and> 2 < int (length (queue (new_room\<lparr>media := Item (Media ''spotify'' ''c3''),
                                        queue := three_videos, currentIndex := Num 2\<rparr>)))
   \<and> (\<exists>rooms' room'.
        run (nav_calls A_in ''ABC123'' [(Next, 1000), (Next, 2000), (Prev, 3000)])
          [''ABC123'' \<mapsto> new_room\<lparr>media := Item (Media ''spotify'' ''c3''), queue := three_videos,
                                   currentIndex := Num 2\<rparr>] = Some rooms' \<and>
        rooms' ''ABC123'' = Some room' \<and> queue room' = three_videos \<and>
        currentIndex room' = Num 0)
   \<and> map_option currentIndex
        (fst (next_video A_in 1000 ''ABC123''
               [''ABC123'' \<mapsto> new_room\<lparr>media := Item (Media ''spotify'' ''c3''),
                                        queue := three_videos, currentIndex := Num 2\<rparr>]) ''ABC123'')
     = Some (Num 0)
   \<and> map_option currentIndex
        (fst (prev_video A_in 1000 ''ABC123''
               [''ABC123'' \<mapsto> new_room\<lparr>media := Item (Media ''spotify'' ''c3''),
                                        queue := three_videos, currentIndex := Num 2\<rparr>]) ''ABC123'')
     = Some (Num 1)"
proof -
  let ?r = "new_room\<lparr>media := Item (Media ''spotify'' ''c3''), queue := three_videos,
                     currentIndex := Num 2\<rparr>"
  let ?R = "[''ABC123'' \<mapsto> ?r]"
  have h1: "?R ''ABC123'' = Some ?r" by simp
  have h2: "hostId ?r = sid A_in" by simp
  have h3: "''ABC123'' \<in> set (srooms A_in)" by simp
  have h4: "currentIndex ?r = Num 2" by simp
  have h5: "(0::int) \<le> 2" by simp
  have h6: "2 < int (length (queue ?r))" by simp
  from navigation_index [of ?R "''ABC123''" ?r A_in 2 "[(Next, 1000), (Next, 2000), (Prev, 3000)]" 1000,
      OF h1 h2 h3 h4 h5 h6]
  show ?thesis by simp
qed

text \<open>
  On an empty queue the remainder is taken by zero: for every room with an empty queue
  and a numeric index, a navigation request of the host stores \<^verbatim>\<open>NaN\<close> and
  \<^verbatim>\<open>undefined\<close>, stops playback, resets the time and broadcasts both events.
\<close>

lemma navigation_empty_queue:
  assumes "rooms roomCode = Some room" and "hostId room = sid s" and "roomCode \<in> set (srooms s)"
    and "queue room = []" and "currentIndex room = Num i"
  shows "next_video s now roomCode rooms =
           (rooms(roomCode \<mapsto> room\<lparr>currentIndex := NaN, media := Undefined,
                                      currentTime := 0, isPlaying := False\<rparr>),
            [Emit (Room roomCode) (MediaUpdated Undefined [] NaN),
             Emit (Room roomCode) (SyncSeek 0 now)])"
    and "prev_video s now roomCode rooms =
           (rooms(roomCode \<mapsto> room\<lparr>currentIndex := NaN, media := Undefined,
                                      currentTime := 0, isPlaying := False\<rparr>),
            [Emit (Room roomCode) (MediaUpdated Undefined [] NaN),
             Emit (Room roomCode) (SyncSeek 0 now)])"
  using assms by (simp_all add: next_video_def prev_video_def)

text \<open>
  Once \<^verbatim>\<open>currentIndex\<close> is \<^verbatim>\<open>NaN\<close> it stays so under navigation, whatever the queue:
  \<^verbatim>\<open>NaN + 1\<close> and \<^verbatim>\<open>NaN % n\<close> are \<^verbatim>\<open>NaN\<close>.
\<close>

lemma navigation_nan_index:
  assumes "rooms roomCode = Some room" and "hostId room = sid s" and "roomCode \<in> set (srooms s)"
    and "currentIndex room = NaN"
  shows "next_video s now roomCode rooms =
           (rooms(roomCode \<mapsto> room\<lparr>currentIndex := NaN, media := Undefined,
                                      currentTime := 0, isPlaying := False\<rparr>),
            [Emit (Room roomCode) (MediaUpdated Undefined (queue room) NaN),
             Emit (Room roomCode) (SyncSeek 0 now)])"
    and "prev_video s now roomCode rooms =
           (rooms(roomCode \<mapsto> room\<lparr>currentIndex := NaN, media := Undefined,
                                      currentTime := 0, isPlaying := False\<rparr>),
            [Emit (Room roomCode) (MediaUpdated Undefined (queue room) NaN),
             Emit (Room roomCode) (SyncSeek 0 now)])"
  using assms by (simp_all add: next_video_def prev_video_def)

text \<open>
  C2. The host creates a room, sends \<^verbatim>\<open>next-video\<close> while the queue is empty
  (\<^verbatim>\<open>currentIndex\<close> becomes \<^verbatim>\<open>NaN\<close>) and queues one video with \<^verbatim>\<open>addToQueue\<close>,
  which leaves the index alone. The queue now has length 1 and the index is
  \<^verbatim>\<open>NaN\<close>. A further \<^verbatim>\<open>next-video\<close> or \<^verbatim>\<open>prev-video\<close> of the host leaves it
  \<^verbatim>\<open>NaN\<close>, which is no number of \<open>[0, 1)\<close>, and sends \<^verbatim>\<open>undefined\<close> as the media.
\<close>

theorem navigation_index_nan:
  "run [(A_new, 1000, [''ABC123''], CreateRoom ''ann''),
        (A_in, 2000, [], NextVideo ''ABC123''),
        (A_in, 3000, [], LoadMedia ''ABC123'' (Media ''youtube'' ''xyz'') True)] Map.empty
     = Some [''ABC123'' \<mapsto> new_room\<lparr>media := Undefined, queue := [Media ''youtube'' ''xyz''],
                                      currentIndex := NaN\<rparr>]
   \<and> length (queue (new_room\<lparr>media := Undefined, queue := [Media ''youtube'' ''xyz''],
                               currentIndex := NaN\<rparr>)) = 1
   \<and> next_video A_in 4000 ''ABC123''
        [''ABC123'' \<mapsto> new_room\<lparr>media := Undefined, queue := [Media ''youtube'' ''xyz''],
                                 currentIndex := NaN\<rparr>]
     = ([''ABC123'' \<mapsto> new_room\<lparr>media := Undefined, queue := [Media ''youtube'' ''xyz''],
                                  currentIndex := NaN\<rparr>],
        [Emit (Room ''ABC123'') (MediaUpdated Undefined [Media ''youtube'' ''xyz''] NaN),
         Emit (Room ''ABC123'') (SyncSeek 0 4000)])
   \<and> prev_video A_in 4000 ''ABC123''
        [''ABC123'' \<mapsto> new_room\<lparr>media := Undefined, queue := [Media ''youtube'' ''xyz''],
                                 currentIndex := NaN\<rparr>]
     = ([''ABC123'' \<mapsto> new_room\<lparr>media := Undefined, queue := [Media ''youtube'' ''xyz''],
                                  currentIndex := NaN\<rparr>],
        [Emit (Room ''ABC123'') (MediaUpdated Undefined [Media ''youtube'' ''xyz''] NaN),
         Emit (Room ''ABC123'') (SyncSeek 0 4000)])"
  by (simp add: create_room_def next_video_def prev_video_def load_media_def)

text \<open>
  C3. The host creates a room, starts playback at 12 seconds and sends
  \<^verbatim>\<open>next-video\<close> (or \<^verbatim>\<open>prev-video\<close>) while the queue is empty. The handler has no
  check of the queue's length: no error is sent, \<^verbatim>\<open>currentIndex\<close> becomes
  \<^verbatim>\<open>NaN\<close>, \<^verbatim>\<open>media\<close> becomes \<^verbatim>\<open>undefined\<close>, \<^verbatim>\<open>isPlaying\<close> and
  \<^verbatim>\<open>currentTime\<close> are reset, and \<^verbatim>\<open>media-updated\<close> and \<^verbatim>\<open>sync-seek\<close> go to the
  whole room.
\<close>

theorem next_video_empty_queue:
  "run [(A_new, 1000, [''ABC123''], CreateRoom ''ann''),
        (A_in, 2000, [], Play ''ABC123'' 12)] Map.empty
     = Some [''ABC123'' \<mapsto> new_room\<lparr>isPlaying := True, currentTime := 12\<rparr>]
   \<and> next_video A_in 3000 ''ABC123''
        [''ABC123'' \<mapsto> new_room\<lparr>isPlaying := True, currentTime := 12\<rparr>]
     = ([''ABC123'' \<mapsto> new_room\<lparr>media := Undefined, currentIndex := NaN\<rparr>],
        [Emit (Room ''ABC123'') (MediaUpdated Undefined [] NaN),
         Emit (Room ''ABC123'') (SyncSeek 0 3000)])
   \<and> prev_video A_in 3000 ''ABC123''
        [''ABC123'' \<mapsto> new_room\<lparr>isPlaying := True, currentTime := 12\<rparr>]
     = ([''ABC123'' \<mapsto> new_room\<lparr>media := Undefined, currentIndex := NaN\<rparr>],
        [Emit (Room ''ABC123'') (MediaUpdated Undefined [] NaN),
         Emit (Room ''ABC123'') (SyncSeek 0 3000)])"
  by (simp add: create_room_def play_def next_video_def prev_video_def)

section \<open>Host authority\<close>

text \<open>
  C4. A host-only request (\<^verbatim>\<open>load-media\<close>, \<^verbatim>\<open>play\<close>, \<^verbatim>\<open>pause\<close>, \<^verbatim>\<open>seek\<close>,
  \<^verbatim>\<open>next-video\<close>, \<^verbatim>\<open>prev-video\<close>) from a connection that is not the host of the
  room it names leaves the whole \<^verbatim>\<open>rooms\<close> map as it was and issues no effect; so does
  one that names a room that does not exist or that the connection has not joined.
\<close>

theorem non_host_request_dropped:
  assumes "control_room req = Some roomCode"
    and "rooms roomCode = None \<or> roomCode \<notin> set (srooms s) \<or>
         (\<exists>room. rooms roomCode = Some room \<and> hostId room \<noteq> sid s)"
  shows "handle s now codes req rooms = Some (rooms, [])"
  using assms
  by (cases req)
     (auto simp: load_media_def play_def pause_def seek_def next_video_def prev_video_def
           split: option.splits)

theorem non_host_request_dropped_witness:
  "control_room (Seek ''ABC123'' 30) = Some ''ABC123''
   \<and> [''ABC123'' \<mapsto> new_room\<lparr>users := [ann, bob]\<rparr>] ''ABC123''
     = Some (new_room\<lparr>users := [ann, bob]\<rparr>)
   \<and> hostId (new_room\<lparr>users := [ann, bob]\<rparr>) \<noteq> sid B_in
   \<and> handle B_in 4000 [] (Seek ''ABC123'' 30) [''ABC123'' \<mapsto> new_room\<lparr>users := [ann, bob]\<rparr>]
     = Some ([''ABC123'' \<mapsto> new_room\<lparr>users := [ann, bob]\<rparr>], [])"
proof -
  let ?r = "new_room\<lparr>users := [ann, bob]\<rparr>"
  let ?R = "[''ABC123'' \<mapsto> ?r]"
  have h1: "control_room (Seek ''ABC123'' 30) = Some ''ABC123''" by simp
  have h2: "?R ''ABC123'' = None \<or> ''ABC123'' \<notin> set (srooms B_in) \<or>
            (\<exists>room. ?R ''ABC123'' = Some room \<and> hostId room \<noteq> sid B_in)" by simp
  from non_host_request_dropped [of "Seek ''ABC123'' 30" "''ABC123''" ?R B_in 4000 "[]", OF h1 h2]
  show ?thesis by simp
qed

section \<open>Disconnection\<close>

text \<open>
  The body of the loop of the \<^verbatim>\<open>disconnect\<close> handler does what its comments say to
  every room that \<^verbatim>\<open>socket.rooms\<close> lists when the handler runs: the connection's
  entries are removed, a departing host is replaced by the first entry that remains, and
  a room left without entries is deleted.
\<close>

lemma disconnect_room_other:
  "k \<noteq> roomCode \<Longrightarrow> fst (disconnect_room s roomCode st) k = fst st k"
  by (simp add: disconnect_room_def Let_def split: option.splits)

lemma disconnect_fold_absent:
  "fst st k = None \<Longrightarrow> fst (fold (disconnect_room s) cs st) k = None"
proof (induction cs arbitrary: st)
  case Nil
  then show ?case by simp
next
  case (Cons c cs)
  have "fst (disconnect_room s c st) k = None"
  proof (cases "k = c")
    case True
    with Cons.prems show ?thesis by (simp add: disconnect_room_def)
  next
    case False
    with Cons.prems show ?thesis by (simp add: disconnect_room_other)
  qed
  then show ?case by (simp add: Cons.IH)
qed

lemma disconnect_room_settled:
  assumes "fst st k = Some room" "hostId room \<noteq> sid s"
    and "filter (\<lambda>u. user_id u \<noteq> sid s) (users room) = users room" "users room \<noteq> []"
  shows "fst (disconnect_room s c st) k = Some room"
proof (cases "k = c")
  case True
  with assms show ?thesis by (cases "c = sid s") (simp_all add: disconnect_room_def Let_def)
next
  case False
  with assms(1) show ?thesis by (simp add: disconnect_room_other)
qed

lemma disconnect_fold_settled:
  assumes "fst st k = Some room" "hostId room \<noteq> sid s"
    and "filter (\<lambda>u. user_id u \<noteq> sid s) (users room) = users room" "users room \<noteq> []"
  shows "fst (fold (disconnect_room s) cs st) k = Some room"
  using assms(1)
proof (induction cs arbitrary: st)
  case Nil
  then show ?case by simp
next
  case (Cons c cs)
  from Cons.prems assms(2-4) have "fst (disconnect_room s c st) k = Some room"
    by (rule disconnect_room_settled)
  then show ?case by (simp add: Cons.IH)
qed

lemma disconnect_promotes_first_remaining:
  assumes "rooms roomCode = Some room" "hostId room = sid s"
    and "roomCode \<in> set (srooms s)" "roomCode \<noteq> sid s"
    and "filter (\<lambda>u. user_id u \<noteq> sid s) (users room) = u # us"
  shows "fst (disconnect s rooms) roomCode = Some (room\<lparr>users := u # us, hostId := user_id u\<rparr>)"
proof -
  let ?r = "room\<lparr>users := u # us, hostId := user_id u\<rparr>"
  from assms(5) have "u \<in> set (filter (\<lambda>u. user_id u \<noteq> sid s) (users room))" by simp
  then have u: "user_id u \<noteq> sid s" by simp
  have "filter (\<lambda>u. user_id u \<noteq> sid s) (filter (\<lambda>u. user_id u \<noteq> sid s) (users room))
        = filter (\<lambda>u. user_id u \<noteq> sid s) (users room)" by simp
  with assms(5) have f: "filter (\<lambda>u. user_id u \<noteq> sid s) (users ?r) = users ?r" by simp
  have g: "fst st roomCode = Some room \<Longrightarrow> roomCode \<in> set cs \<Longrightarrow>
        fst (fold (disconnect_room s) cs st) roomCode = Some ?r" for cs st
  proof (induction cs arbitrary: st)
    case Nil
    then show ?case by simp
  next
    case (Cons c cs)
    show ?case
    proof (cases "c = roomCode")
      case True
      with Cons.prems(1) assms(2,4,5) have "fst (disconnect_room s c st) roomCode = Some ?r"
        by (simp add: disconnect_room_def Let_def)
      then have "fst (fold (disconnect_room s) cs (disconnect_room s c st)) roomCode = Some ?r"
        using u f by (intro disconnect_fold_settled) simp_all
      then show ?thesis by simp
    next
      case False
      with Cons.prems have "fst (disconnect_room s c st) roomCode = Some room" "roomCode \<in> set cs"
        by (simp_all add: disconnect_room_other)
      then show ?thesis by (simp add: Cons.IH)
    qed
  qed
  from g [of "(rooms, [])" "srooms s"] assms(1,3) show ?thesis by (simp add: disconnect_def)
qed

lemma disconnect_deletes_empty_room:
  assumes "rooms roomCode = Some room"
    and "roomCode \<in> set (srooms s)" "roomCode \<noteq> sid s"
    and "filter (\<lambda>u. user_id u \<noteq> sid s) (users room) = []"
  shows "fst (disconnect s rooms) roomCode = None"
proof -
  have g: "fst st roomCode = Some room \<Longrightarrow> roomCode \<in> set cs \<Longrightarrow>
        fst (fold (disconnect_room s) cs st) roomCode = None" for cs st
  proof (induction cs arbitrary: st)
    case Nil
    then show ?case by simp
  next
    case (Cons c cs)
    show ?case
    proof (cases "c = roomCode")
      case True
      with Cons.prems(1) assms(3,4) have "fst (disconnect_room s c st) roomCode = None"
        by (simp add: disconnect_room_def Let_def)
      then show ?thesis by (simp add: disconnect_fold_absent)
    next
      case False
      with Cons.prems have "fst (disconnect_room s c st) roomCode = Some room" "roomCode \<in> set cs"
        by (simp_all add: disconnect_room_other)
      then show ?thesis by (simp add: Cons.IH)
    qed
  qed
  from g [of "(rooms, [])" "srooms s"] assms(1,2) show ?thesis by (simp add: disconnect_def)
qed

text \<open>
  The handler is registered for \<^verbatim>\<open>disconnect\<close>. socket.io fires that event after the
  connection has left all its rooms (the event fired while \<^verbatim>\<open>socket.rooms\<close> still
  lists them is \<^verbatim>\<open>disconnecting\<close>), so the handler reads an empty set and its loop
  runs over nothing.
\<close>

lemma disconnect_without_rooms: "srooms s = [] \<Longrightarrow> disconnect s rooms = (rooms, [])"
  by (simp add: disconnect_def)

text \<open>
  C5. A creates a room, B joins it, A disconnects. With \<^verbatim>\<open>socket.rooms\<close> empty
  when the handler runs, the room keeps \<^verbatim>\<open>hostId\<close> A and still lists A; B is not
  promoted, and a \<^verbatim>\<open>seek\<close> of B is dropped.
\<close>

theorem host_disconnect_rooms_left:
  "run [(A_new, 1000, [''ABC123''], CreateRoom ''ann''),
        (B_new, 2000, [], JoinRoom ''ABC123'' ''bob''),
        (A_closed, 3000, [], Disconnect)] Map.empty
     = Some [''ABC123'' \<mapsto> new_room\<lparr>users := [ann, bob]\<rparr>]
   \<and> seek B_in 4000 ''ABC123'' 30 [''ABC123'' \<mapsto> new_room\<lparr>users := [ann, bob]\<rparr>]
     = ([''ABC123'' \<mapsto> new_room\<lparr>users := [ann, bob]\<rparr>], [])"
  by (simp add: create_room_def join_room_def disconnect_def seek_def)

text \<open>
  C6. A creates a room and disconnects as its only member. With \<^verbatim>\<open>socket.rooms\<close>
  empty when the handler runs, the room stays in the map with host A: a later
  \<^verbatim>\<open>join-room\<close> of B with its code is not answered with \<^verbatim>\<open>Room not found\<close>; it finds
  the room, adds B to it and sends B its state.
\<close>

theorem last_disconnect_rooms_left:
  "run [(A_new, 1000, [''ABC123''], CreateRoom ''ann''),
        (A_closed, 2000, [], Disconnect)] Map.empty
     = Some [''ABC123'' \<mapsto> new_room]
   \<and> join_room B_new ''ABC123'' ''bob'' [''ABC123'' \<mapsto> new_room]
     = ([''ABC123'' \<mapsto> new_room\<lparr>users := [ann, bob]\<rparr>],
        [Join ''ABC123'',
         Emit (Others [''ABC123'']) (UserJoined ''bob''),
         Emit Sender (RoomState
           \<lparr>snap_media = Null, snap_queue = [], snap_currentIndex = Num 0,
            snap_isPlaying = False, snap_currentTime = 0, snap_hostId = ''A'',
            snap_users = [''ann'', ''bob'']\<rparr>)])"
  by (simp add: create_room_def join_room_def disconnect_def)

section \<open>Signalling\<close>

text \<open>
  The three signalling handlers address their event with
  \<^verbatim>\<open>socket.to(targetId).to(roomCode)\<close>: it reaches every connection other than the
  sender that is in the room named \<open>targetId\<close> or in the room \<open>roomCode\<close>.
\<close>

lemma signalling_recipients:
  "receives joined (sid s) (Others [targetId, roomCode]) c =
     (c \<noteq> sid s \<and> (targetId \<in> set (joined c) \<or> roomCode \<in> set (joined c)))"
  by auto

text \<open>
  C7. A, B, C are in room ABC123 (each also in the room of its own id), D is not. A sends
  \<^verbatim>\<open>voice-offer\<close>, \<^verbatim>\<open>voice-answer\<close> or \<^verbatim>\<open>ice-candidate\<close> with \<open>targetId\<close> B.
  The one event issued carries A's id and is addressed to the rooms B and ABC123: B
  receives it, and so does C, which is not the target.
\<close>

theorem voice_offer_reaches_room:
  "voice_offer A_in ''ABC123'' ''sdp'' ''B'' Map.empty
     = (Map.empty, [Emit (Others [''B'', ''ABC123'']) (VoiceOfferEv ''sdp'' ''A'')])
   \<and> voice_answer A_in ''ABC123'' ''sdp'' ''B'' Map.empty
     = (Map.empty, [Emit (Others [''B'', ''ABC123'']) (VoiceAnswerEv ''sdp'' ''A'')])
   \<and> ice_candidate A_in ''ABC123'' ''cand'' ''B'' Map.empty
     = (Map.empty, [Emit (Others [''B'', ''ABC123'']) (IceCandidateEv ''cand'' ''A'')])
   \<and> receives three_joined ''A'' (Others [''B'', ''ABC123'']) ''B''
   \<and> receives three_joined ''A'' (Others [''B'', ''ABC123'']) ''C''
   \<and> \<not> receives three_joined ''A'' (Others [''B'', ''ABC123'']) ''D''"
  by (auto simp: voice_offer_def voice_answer_def ice_candidate_def)

section \<open>Entries of the users list\<close>

lemma ids_distinct_frame [simp]:
  "ids_distinct (r\<lparr>queue := q\<rparr>) = ids_distinct r"
  "ids_distinct (r\<lparr>media := m\<rparr>) = ids_distinct r"
  "ids_distinct (r\<lparr>currentIndex := i\<rparr>) = ids_distinct r"
  "ids_distinct (r\<lparr>isPlaying := b\<rparr>) = ids_distinct r"
  "ids_distinct (r\<lparr>currentTime := t\<rparr>) = ids_distinct r"
  "ids_distinct (r\<lparr>hostId := h\<rparr>) = ids_distinct r"
  by (simp_all add: ids_distinct_def)























section \<open>Loading media\<close>

text \<open>
  With \<^verbatim>\<open>addToQueue\<close> the host's \<^verbatim>\<open>load-media\<close> appends the reference to the queue
  and leaves every other field of the room; the \<^verbatim>\<open>media\<close> field of the
  \<^verbatim>\<open>media-updated\<close> event is the reference of the request, not \<^verbatim>\<open>room.media\<close>.
\<close>

lemma load_media_add_to_queue:
  assumes "rooms roomCode = Some room" and "hostId room = sid s" and "roomCode \<in> set (srooms s)"
  shows "load_media s roomCode m True rooms =
           (rooms(roomCode \<mapsto> room\<lparr>queue := queue room @ [m]\<rparr>),
            [Emit (Room roomCode) (MediaUpdated (Item m) (queue room @ [m]) (currentIndex room))])"
  using assms by (simp add: load_media_def)

text \<open>
  C9. The host of a new room queues a video with \<^verbatim>\<open>addToQueue\<close>. The queue becomes
  that one video, \<^verbatim>\<open>room.media\<close> stays \<^verbatim>\<open>null\<close> and \<^verbatim>\<open>currentIndex\<close> stays 0; the
  \<^verbatim>\<open>media-updated\<close> event sent to the room carries the queued video as \<^verbatim>\<open>media\<close>,
  which is not the room's media.
\<close>

theorem add_to_queue_event_media:
  "load_media A_in ''ABC123'' (Media ''youtube'' ''xyz'') True [''ABC123'' \<mapsto> new_room]
     = ([''ABC123'' \<mapsto> new_room\<lparr>queue := [Media ''youtube'' ''xyz'']\<rparr>],
        [Emit (Room ''ABC123'')
           (MediaUpdated (Item (Media ''youtube'' ''xyz'')) [Media ''youtube'' ''xyz''] (Num 0))])
   \<and> media (new_room\<lparr>queue := [Media ''youtube'' ''xyz'']\<rparr>) = Null"
  by (simp add: load_media_def)

section \<open>Clock compensation\<close>

text \<open>
  C10. A \<^verbatim>\<open>play\<close> of the host with position \<open>t\<close>, stamped \<open>now\<close> by the server,
  issues one \<^verbatim>\<open>sync-play\<close> event to the whole room, carrying \<open>t\<close> and \<open>now\<close>. A client
  that handles it at local clock reading \<open>localNow\<close> seeks to
  \<open>t + (localNow - now) / 1000\<close> and then plays: every receiver applies this one formula to
  the one pair of the event. The arithmetic is that of the real numbers; the rounding of
  JavaScript's numbers is not modelled.
\<close>

theorem sync_play_target:
  assumes "rooms roomCode = Some room" and "hostId room = sid s" and "roomCode \<in> set (srooms s)"
  shows "snd (play s now roomCode t rooms) = [Emit (Room roomCode) (SyncPlay t now 0)] \<and>
         client_on localNow (SyncPlay t now 0) =
           [SeekTo (t + (real_of_int localNow - real_of_int now) / 1000) True, PlayVideo]"
  using assms by (simp add: play_def on_sync_play_def)

theorem sync_play_target_witness:
  "[''ABC123'' \<mapsto> new_room] ''ABC123'' = Some new_room
   \<and> hostId new_room = sid A_in
   \<and> ''ABC123'' \<in> set (srooms A_in)
   \<and> snd (play A_in 1000 ''ABC123'' 5 [''ABC123'' \<mapsto> new_room])
     = [Emit (Room ''ABC123'') (SyncPlay 5 1000 0)]
   \<and> client_on 1250 (SyncPlay 5 1000 0) = [SeekTo (21 / 4) True, PlayVideo]"
proof -
  let ?R = "[''ABC123'' \<mapsto> new_room]"
  have h1: "?R ''ABC123'' = Some new_room" by simp
  have h2: "hostId new_room = sid A_in" by simp
  have h3: "''ABC123'' \<in> set (srooms A_in)" by simp
  from sync_play_target [of ?R "''ABC123''" new_room A_in 1000 5 1250, OF h1 h2 h3]
  show ?thesis by simp
qed

end
